theory Spec2Isabelle
  imports Complex_Main "HOL-Library.AList"
begin

section \<open>The training agent of PyTorch\_Template/agent.py\<close>

text \<open>
  The file \<^verbatim>\<open>agent.py\<close> is orchestration code around a tensor library, an
  optimizer library and an event writer. The embedding keeps the agent's
  attributes as a record, passes the state explicitly, and returns from every
  method the value or the exception together with the state the call left
  behind (a Python exception does not undo the assignments made before it).
  The library objects are kept as small symbolic records: what the agent reads
  from them and what its calls do to them.
\<close>

subsection \<open>Python values and errors\<close>

datatype error =
    NotImplementedError
  | ValueError string
  | TypeError
  | AttributeError
  | OSError
  | FileNotFoundError
  | UnpicklingError
  | ZeroDivisionError
  | RuntimeError
  | OtherError string

text \<open>The values a checkpoint name takes: \<^verbatim>\<open>None\<close>, a string, or an epoch
  number.\<close>

datatype pyname = PyNone | PyStr string | PyInt int

text \<open>Decimal printing of integers, as \<^verbatim>\<open>str\<close> does.\<close>

definition digit_char :: "nat \<Rightarrow> char" where
  "digit_char d = ''0123456789'' ! d"

function str_nat :: "nat \<Rightarrow> string" where
  "str_nat n = (if n < 10 then [digit_char n] else str_nat (n div 10) @ [digit_char (n mod 10)])"
  by pat_completeness auto
termination
  by (relation "measure id") auto

declare str_nat.simps [simp del]

definition str_int :: "int \<Rightarrow> string" where
  "str_int i = (if i < 0 then CHR ''-'' # str_nat (nat (- i)) else str_nat (nat i))"

text \<open>\<^verbatim>\<open>"{}".format(x)\<close>\<close>

fun format :: "pyname \<Rightarrow> string" where
  "format PyNone = ''None''"
| "format (PyStr s) = s"
| "format (PyInt i) = str_int i"

text \<open>\<^verbatim>\<open>os.path.join(a, b)\<close> on POSIX: an absolute second component
  replaces the first; otherwise a separator is inserted unless the first
  component is empty or already ends with one.\<close>

definition os_path_join :: "string \<Rightarrow> string \<Rightarrow> string" where
  "os_path_join a b =
     (if b \<noteq> [] \<and> hd b = CHR ''/'' then b
      else if a = [] \<or> last a = CHR ''/'' then a @ b
      else a @ ''/'' @ b)"

subsection \<open>Library objects\<close>

text \<open>A scalar tensor is modelled by the number \<^verbatim>\<open>.item()\<close> returns and by
  whether it requires gradients, that is, whether it hangs on a graph that
  \<^verbatim>\<open>backward\<close> can walk. A sum requires gradients when one of its terms
  does.\<close>

datatype tensor = Tensor real bool

fun item :: "tensor \<Rightarrow> real" where
  "item (Tensor x g) = x"

fun requires_grad :: "tensor \<Rightarrow> bool" where
  "requires_grad (Tensor x g) = g"

fun tensor_add :: "tensor \<Rightarrow> tensor \<Rightarrow> tensor" where
  "tensor_add (Tensor x g) (Tensor y h) = Tensor (x + y) (g \<or> h)"

text \<open>The result of \<^verbatim>\<open>sum(...)\<close>: the integer start value 0 when there is
  nothing to add, a tensor otherwise.\<close>

datatype pynum = IntZero | TensorVal tensor

fun py_add :: "pynum \<Rightarrow> tensor \<Rightarrow> pynum" where
  "py_add IntZero (Tensor x g) = TensorVal (Tensor (0 + x) g)"
| "py_add (TensorVal t) u = TensorVal (tensor_add t u)"

definition py_sum :: "tensor list \<Rightarrow> pynum" where
  "py_sum ts = foldl py_add IntZero ts"

text \<open>Network parameters are symbolic: the initial parameters of a built
  network, or the parameters after an optimizer step that used the gradients
  accumulated from a list of backpropagated losses.\<close>

datatype weights = InitialWeights nat | AfterStep weights "tensor list"

datatype device = Host | Device

record state_dict =
  sd_weights :: weights
  sd_device :: device

record network =
  weights :: weights
  grad :: "tensor list"
  training :: bool
  residency :: device
  data_parallel :: bool

definition cpu :: "network \<Rightarrow> network" where
  "cpu n = n\<lparr>residency := Host\<rparr>"

definition cuda :: "network \<Rightarrow> network" where
  "cuda n = n\<lparr>residency := Device\<rparr>"

definition get_state_dict :: "network \<Rightarrow> state_dict" where
  "get_state_dict n = \<lparr>sd_weights = weights n, sd_device = residency n\<rparr>"

text \<open>\<^verbatim>\<open>load_state_dict\<close> copies the stored values into the existing
  parameters; where they live does not change.\<close>

definition load_state_dict :: "network \<Rightarrow> state_dict \<Rightarrow> network" where
  "load_state_dict n sd = n\<lparr>weights := sd_weights sd\<rparr>"

definition net_train :: "network \<Rightarrow> network" where
  "net_train n = n\<lparr>training := True\<rparr>"

definition net_eval :: "network \<Rightarrow> network" where
  "net_eval n = n\<lparr>training := False\<rparr>"

text \<open>\<^verbatim>\<open>loss.backward()\<close> accumulates the gradients of the loss in the
  parameters; on a tensor that does not require gradients it raises a runtime
  error and accumulates nothing.\<close>

definition backward :: "tensor \<Rightarrow> network \<Rightarrow> error + network" where
  "backward t n = (if requires_grad t then Inr (n\<lparr>grad := grad n @ [t]\<rparr>) else Inl RuntimeError)"

text \<open>The optimizer (Adam): the learning rate of its last parameter group and
  the number of steps taken. Its state dict is the record itself.\<close>

record optimizer =
  lr :: real
  steps :: nat

text \<open>The scheduler (StepLR). Its state dict is the record itself.\<close>

record scheduler =
  step_size :: int
  gamma :: real
  base_lr :: real
  last_epoch :: int

text \<open>An entry of a tensorboard writer: tag, scalar value, global step.\<close>

type_synonym scalar_entry = "string \<times> real \<times> int"

definition add_scalar :: "scalar_entry list \<Rightarrow> string \<Rightarrow> real \<Rightarrow> int \<Rightarrow> scalar_entry list" where
  "add_scalar tb tag v gs = tb @ [(tag, v, gs)]"

subsection \<open>TrainClock\<close>

text \<open>Modelled from the spec: the class \<^verbatim>\<open>TrainClock\<close> of the module
  \<^verbatim>\<open>utils\<close>, of which \<^verbatim>\<open>agent.py\<close> has only the import. The spec describes
  it as the mutable counters \<^verbatim>\<open>epoch\<close> and \<^verbatim>\<open>step\<close>, serialized to and from a
  checkpoint's embedded sub-record.\<close>

record TrainClock =
  epoch :: int
  step :: int

type_synonym clock_dict = "int \<times> int"

definition make_checkpoint :: "TrainClock \<Rightarrow> clock_dict" where
  "make_checkpoint c = (epoch c, step c)"

definition restore_checkpoint :: "TrainClock \<Rightarrow> clock_dict \<Rightarrow> TrainClock" where
  "restore_checkpoint c d = c\<lparr>epoch := fst d, step := snd d\<rparr>"

subsection \<open>Checkpoints, files and the agent\<close>

record checkpoint =
  ck_clock :: clock_dict
  model_state_dict :: state_dict
  optimizer_state_dict :: optimizer
  scheduler_state_dict :: scheduler

datatype disk_file = CheckpointFile checkpoint | OtherFile

text \<open>What \<^verbatim>\<open>forward\<close> hands back: nothing (a body that is only \<^verbatim>\<open>pass\<close>), or
  the pair of outputs and the loss dictionary. A dictionary is the list of its
  items in insertion order.\<close>

type_synonym loss_dict = "(string \<times> tensor) list"

datatype 'o fwd_ret = RetNone | RetPair 'o loss_dict

record config =
  cfg_log_dir :: string
  cfg_model_dir :: string
  cfg_device :: string
  cfg_batch_size :: int
  cfg_lr :: real
  cfg_lr_step_size :: int

text \<open>A class of agents is given by the methods it overrides. An overriding
  \<^verbatim>\<open>forward\<close> computes from the network, the gradient mode and the batch.\<close>

record ('d, 'o) agent_class =
  build_net_override :: "(config \<Rightarrow> network) option"
  forward_override :: "(network \<Rightarrow> bool \<Rightarrow> 'd \<Rightarrow> error + 'o fwd_ret) option"
  visualize_batch_override :: "('d \<Rightarrow> scalar_entry list \<Rightarrow> error + unit) option"

definition BaseAgent :: "('d, 'o) agent_class" where
  "BaseAgent = \<lparr>build_net_override = None, forward_override = None,
     visualize_batch_override = None\<rparr>"

text \<open>\<^verbatim>\<open>MyAgent\<close> overrides \<^verbatim>\<open>build_net\<close> with the network factory
  \<^verbatim>\<open>get_network\<close> (of the module \<^verbatim>\<open>networks\<close>, taken as a parameter) and
  \<^verbatim>\<open>forward\<close> with a body that is only \<^verbatim>\<open>pass\<close>.\<close>

definition MyAgent :: "(config \<Rightarrow> network) \<Rightarrow> ('d, 'o) agent_class" where
  "MyAgent get_network = \<lparr>build_net_override = Some get_network,
     forward_override = Some (\<lambda>n g d. Inr RetNone),
     visualize_batch_override = None\<rparr>"

text \<open>The agent's attributes, together with the part of the world its methods
  touch: the files below the model directory, which paths can be written, and
  the console.\<close>

record ('d, 'o) agent =
  cls :: "('d, 'o) agent_class"
  log_dir :: string
  model_dir :: string
  clock :: TrainClock
  batch_size :: int
  net :: network
  optimizer :: optimizer
  scheduler :: scheduler
  train_tb :: "scalar_entry list"
  val_tb :: "scalar_entry list"
  files :: "string \<rightharpoonup> disk_file"
  writable :: "string \<Rightarrow> bool"
  console :: "string list"

type_synonym ('a, 'd, 'o) ret = "(error + 'a) \<times> ('d, 'o) agent"

definition os_path_exists :: "('d, 'o) agent \<Rightarrow> string \<Rightarrow> bool" where
  "os_path_exists s p = (files s p \<noteq> None)"

definition torch_save :: "('d, 'o) agent \<Rightarrow> checkpoint \<Rightarrow> string \<Rightarrow> error + ('d, 'o) agent" where
  "torch_save s ck p =
     (if writable s p then Inr (s\<lparr>files := (files s)(p \<mapsto> CheckpointFile ck)\<rparr>)
      else Inl OSError)"

definition torch_load :: "('d, 'o) agent \<Rightarrow> string \<Rightarrow> error + checkpoint" where
  "torch_load s p =
     (case files s p of
        None \<Rightarrow> Inl FileNotFoundError
      | Some OtherFile \<Rightarrow> Inl UnpicklingError
      | Some (CheckpointFile ck) \<Rightarrow> Inr ck)"

subsection \<open>save\_ckpt and load\_ckpt\<close>

definition save_path :: "('d, 'o) agent \<Rightarrow> pyname \<Rightarrow> string" where
  "save_path s name =
     (if name = PyNone
      then os_path_join (model_dir s) (''ckpt_epoch'' @ str_int (epoch (clock s)) @ ''.pth'')
      else os_path_join (model_dir s) (format name @ ''.pth''))"

definition save_ckpt :: "('d, 'o) agent \<Rightarrow> pyname \<Rightarrow> (unit, 'd, 'o) ret" where
  "save_ckpt s name =
     (let p = save_path s name;
          s1 = (if data_parallel (net s) then s\<lparr>net := cpu (net s)\<rparr>
                else s\<lparr>net := cpu (net s)\<rparr>);
          ck = \<lparr>ck_clock = make_checkpoint (clock s1),
                model_state_dict = get_state_dict (net s1),
                optimizer_state_dict = optimizer s1,
                scheduler_state_dict = scheduler s1\<rparr>
      in case torch_save s1 ck p of
           Inl e \<Rightarrow> (Inl e, s1)
         | Inr s2 \<Rightarrow>
             (let s3 = s2\<lparr>console := console s2 @ [''Checkpoint saved at '' @ p]\<rparr>
              in (Inr (), s3\<lparr>net := cuda (net s3)\<rparr>)))"

definition load_name :: "pyname \<Rightarrow> pyname" where
  "load_name name = (if name = PyStr ''latest'' then name else PyStr (''ckpt_epoch'' @ format name))"

definition load_path :: "('d, 'o) agent \<Rightarrow> pyname \<Rightarrow> string" where
  "load_path s name = os_path_join (model_dir s) (format (load_name name) @ ''.pth'')"

definition load_ckpt :: "('d, 'o) agent \<Rightarrow> pyname \<Rightarrow> (unit, 'd, 'o) ret" where
  "load_ckpt s name =
     (let p = load_path s name
      in if \<not> os_path_exists s p
         then (Inl (ValueError (''Checkpoint '' @ p @ '' not exists.'')), s)
         else case torch_load s p of
                Inl e \<Rightarrow> (Inl e, s)
              | Inr ck \<Rightarrow>
                  (let s1 = s\<lparr>console := console s @ [''Checkpoint loaded from '' @ p]\<rparr>;
                       s2 = (if data_parallel (net s1)
                             then s1\<lparr>net := load_state_dict (net s1) (model_state_dict ck)\<rparr>
                             else s1\<lparr>net := load_state_dict (net s1) (model_state_dict ck)\<rparr>);
                       s3 = s2\<lparr>optimizer := optimizer_state_dict ck\<rparr>;
                       s4 = s3\<lparr>scheduler := scheduler_state_dict ck\<rparr>
                   in (Inr (), s4\<lparr>clock := restore_checkpoint (clock s4) (ck_clock ck)\<rparr>)))"

subsection \<open>The methods a subclass supplies\<close>

definition build_net :: "('d, 'o) agent_class \<Rightarrow> config \<Rightarrow> error + network" where
  "build_net c cfg =
     (case build_net_override c of
        None \<Rightarrow> Inl NotImplementedError
      | Some f \<Rightarrow> Inr (f cfg))"

text \<open>The body of \<^verbatim>\<open>BaseAgent.forward\<close> is \<^verbatim>\<open>pass\<close>: the call returns
  \<^verbatim>\<open>None\<close>. The class does not use the metaclass that would make the
  decorator \<^verbatim>\<open>abstractmethod\<close> refuse instances.\<close>

definition forward :: "('d, 'o) agent \<Rightarrow> bool \<Rightarrow> 'd \<Rightarrow> error + 'o fwd_ret" where
  "forward s grad_enabled data =
     (case forward_override (cls s) of
        None \<Rightarrow> Inr RetNone
      | Some f \<Rightarrow> f (net s) grad_enabled data)"

definition visualize_batch :: "('d, 'o) agent \<Rightarrow> 'd \<Rightarrow> scalar_entry list \<Rightarrow> error + unit" where
  "visualize_batch s data tb =
     (case visualize_batch_override (cls s) of
        None \<Rightarrow> Inl NotImplementedError
      | Some f \<Rightarrow> f data tb)"

subsection \<open>update\_network\<close>

definition zero_grad :: "('d, 'o) agent \<Rightarrow> ('d, 'o) agent" where
  "zero_grad s = s\<lparr>net := (net s)\<lparr>grad := []\<rparr>\<rparr>"

definition optimizer_step :: "('d, 'o) agent \<Rightarrow> ('d, 'o) agent" where
  "optimizer_step s =
     s\<lparr>net := (net s)\<lparr>weights := AfterStep (weights (net s)) (grad (net s))\<rparr>,
       optimizer := (optimizer s)\<lparr>steps := steps (optimizer s) + 1\<rparr>\<rparr>"

text \<open>An integer has no method \<^verbatim>\<open>backward\<close>: on the empty dictionary the call
  \<^verbatim>\<open>loss.backward()\<close> raises after the gradients were cleared. So does the
  call on a total that does not require gradients.\<close>

definition update_network :: "('d, 'o) agent \<Rightarrow> loss_dict \<Rightarrow> (unit, 'd, 'o) ret" where
  "update_network s loss_dict =
     (let loss = py_sum (map snd loss_dict);
          s1 = zero_grad s
      in case loss of
           IntZero \<Rightarrow> (Inl AttributeError, s1)
         | TensorVal t \<Rightarrow>
             (case backward t (net s1) of
                Inl e \<Rightarrow> (Inl e, s1)
              | Inr n \<Rightarrow>
                  (let s2 = s1\<lparr>net := n\<rparr>
                   in (Inr (), optimizer_step s2))))"

subsection \<open>update\_learning\_rate\<close>

text \<open>\<^verbatim>\<open>scheduler.step(epoch)\<close> of StepLR with an explicit epoch: the scheduler's
  epoch becomes the argument, and every parameter group gets the learning rate
  \<^verbatim>\<open>base_lr * gamma ** (epoch // step_size)\<close>. Learning rates are real numbers
  here.\<close>

definition py_pow :: "real \<Rightarrow> int \<Rightarrow> error + real" where
  "py_pow x k = (if x = 0 \<and> k < 0 then Inl ZeroDivisionError else Inr (x powi k))"

definition closed_form_lr :: "scheduler \<Rightarrow> error + real" where
  "closed_form_lr sch =
     (if step_size sch = 0 then Inl ZeroDivisionError
      else case py_pow (gamma sch) (last_epoch sch div step_size sch) of
             Inl e \<Rightarrow> Inl e
           | Inr g \<Rightarrow> Inr (base_lr sch * g))"

definition scheduler_step :: "('d, 'o) agent \<Rightarrow> int \<Rightarrow> (unit, 'd, 'o) ret" where
  "scheduler_step s e =
     (let s1 = s\<lparr>scheduler := (scheduler s)\<lparr>last_epoch := e\<rparr>\<rparr>
      in case closed_form_lr (scheduler s1) of
           Inl err \<Rightarrow> (Inl err, s1)
         | Inr v \<Rightarrow> (Inr (), s1\<lparr>optimizer := (optimizer s1)\<lparr>lr := v\<rparr>\<rparr>))"

definition update_learning_rate :: "('d, 'o) agent \<Rightarrow> (unit, 'd, 'o) ret" where
  "update_learning_rate s =
     (let s1 = s\<lparr>train_tb := add_scalar (train_tb s) ''learning_rate'' (lr (optimizer s))
                               (epoch (clock s))\<rparr>
      in scheduler_step s1 (epoch (clock s1)))"

subsection \<open>record\_losses\<close>

text \<open>The dictionary comprehension inserts item by item; a key met again
  keeps its place and takes the later value.\<close>

definition losses_values :: "loss_dict \<Rightarrow> (string \<times> real) list" where
  "losses_values loss_dict = foldl (\<lambda>acc (k, v). AList.update k (item v) acc) [] loss_dict"

definition write_scalars :: "scalar_entry list \<Rightarrow> (string \<times> real) list \<Rightarrow> int \<Rightarrow> scalar_entry list" where
  "write_scalars tb kvs gs = foldl (\<lambda>w (k, v). add_scalar w k v gs) tb kvs"

definition record_losses :: "('d, 'o) agent \<Rightarrow> loss_dict \<Rightarrow> string \<Rightarrow> ('d, 'o) agent" where
  "record_losses s loss_dict mode =
     (let lv = losses_values loss_dict
      in if mode = ''train''
         then s\<lparr>train_tb := write_scalars (train_tb s) lv (step (clock s))\<rparr>
         else s\<lparr>val_tb := write_scalars (val_tb s) lv (step (clock s))\<rparr>)"

subsection \<open>train\_func and val\_func\<close>

text \<open>Unpacking \<^verbatim>\<open>None\<close> into two names raises a type error.\<close>

definition train_func :: "('d, 'o) agent \<Rightarrow> 'd \<Rightarrow> ('o \<times> loss_dict, 'd, 'o) ret" where
  "train_func s data =
     (let s1 = s\<lparr>net := net_train (net s)\<rparr>
      in case forward s1 True data of
           Inl e \<Rightarrow> (Inl e, s1)
         | Inr RetNone \<Rightarrow> (Inl TypeError, s1)
         | Inr (RetPair outputs losses) \<Rightarrow>
             (case update_network s1 losses of
                (Inl e, s2) \<Rightarrow> (Inl e, s2)
              | (Inr u, s2) \<Rightarrow> (Inr (outputs, losses), record_losses s2 losses ''train'')))"

definition val_func :: "('d, 'o) agent \<Rightarrow> 'd \<Rightarrow> ('o \<times> loss_dict, 'd, 'o) ret" where
  "val_func s data =
     (let s1 = s\<lparr>net := net_eval (net s)\<rparr>
      in case forward s1 False data of
           Inl e \<Rightarrow> (Inl e, s1)
         | Inr RetNone \<Rightarrow> (Inl TypeError, s1)
         | Inr (RetPair outputs losses) \<Rightarrow>
             (Inr (outputs, losses), record_losses s1 losses ''validation''))"

subsection \<open>A concrete agent\<close>

text \<open>A subclass whose \<^verbatim>\<open>forward\<close> returns the batch and two loss terms, which
  require gradients when the gradient mode is on, and an
  agent of it in its fifth epoch, with the network on the device as the
  constructor leaves it. Only paths directly below \<^verbatim>\<open>ckpts/\<close> can be written.\<close>

definition demo_class :: "(nat, nat) agent_class" where
  "demo_class = \<lparr>build_net_override = Some (\<lambda>cfg. \<lparr>weights = InitialWeights 0, grad = [],
       training = True, residency = Host, data_parallel = False\<rparr>),
     forward_override = Some (\<lambda>n g d. Inr (RetPair d [(''a'', Tensor 1 g), (''b'', Tensor 2 g)])),
     visualize_batch_override = None\<rparr>"

definition demo_agent :: "(nat, nat) agent" where
  "demo_agent = \<lparr>cls = demo_class, log_dir = ''logs'', model_dir = ''ckpts'',
     clock = \<lparr>epoch = 5, step = 120\<rparr>, batch_size = 8,
     net = \<lparr>weights = InitialWeights 0, grad = [], training = True, residency = Device,
            data_parallel = False\<rparr>,
     optimizer = \<lparr>lr = 1 / 1000, steps = 0\<rparr>,
     scheduler = \<lparr>step_size = 10, gamma = 1 / 10, base_lr = 1 / 1000, last_epoch = 0\<rparr>,
     train_tb = [], val_tb = [], files = Map.empty,
     writable = (\<lambda>p. take 6 p = ''ckpts/'' \<and> CHR ''/'' \<notin> set (drop 6 p)),
     console = []\<rparr>"

subsection \<open>Auxiliary definitions\<close>

text \<open>The directory part \<^verbatim>\<open>os.path.join\<close> puts before a relative name.\<close>

definition dir_prefix :: "string \<Rightarrow> string" where
  "dir_prefix a = (if a = [] \<or> last a = CHR ''/'' then a else a @ ''/'')"

text \<open>The concrete agent after a save without a name.\<close>

definition stale_agent :: "(nat, nat) agent" where
  "stale_agent = snd (save_ckpt demo_agent PyNone)"

text \<open>The concrete agent after a save to a path that cannot be written.\<close>

definition host_agent :: "(nat, nat) agent" where
  "host_agent = snd (save_ckpt demo_agent (PyStr ''runs/best''))"

text \<open>One insertion of the dictionary comprehension in \<^verbatim>\<open>record_losses\<close>.\<close>

definition insert_loss :: "(string \<times> real) list \<Rightarrow> string \<times> tensor \<Rightarrow> (string \<times> real) list" where
  "insert_loss acc kv = AList.update (fst kv) (item (snd kv)) acc"

text \<open>The entries \<^verbatim>\<open>record_losses\<close> writes: one per key of the extracted values, at the current step.\<close>

definition written_scalars :: "('d, 'o) agent \<Rightarrow> loss_dict \<Rightarrow> scalar_entry list" where
  "written_scalars s d = map (\<lambda>(k, v). (k, v, step (clock s))) (losses_values d)"

text \<open>The loss dictionary \<^verbatim>\<open>{"a": 1.0, "b": 2.0}\<close>, of tensors computed with
  gradients and of tensors computed without.\<close>

definition two_losses :: loss_dict where
  "two_losses = [(''a'', Tensor 1 True), (''b'', Tensor 2 True)]"

definition detached_losses :: loss_dict where
  "detached_losses = [(''a'', Tensor 1 False), (''b'', Tensor 2 False)]"

text \<open>Whether the total of a loss dictionary requires gradients: one of its
  terms does.\<close>

definition total_requires_grad :: "loss_dict \<Rightarrow> bool" where
  "total_requires_grad loss_dict = list_ex (\<lambda>kv. requires_grad (snd kv)) loss_dict"

text \<open>The concrete agent after it moved on from its checkpoint: a later epoch,
  more optimizer steps, another learning rate, a later scheduler epoch.\<close>

definition later_agent :: "(nat, nat) agent" where
  "later_agent = stale_agent\<lparr>clock := \<lparr>epoch = 20, step = 999\<rparr>,
     optimizer := \<lparr>lr = 1 / 100000, steps = 879\<rparr>,
     scheduler := \<lparr>step_size = 10, gamma = 1 / 10, base_lr = 1 / 1000, last_epoch = 20\<rparr>\<rparr>"

text \<open>The sum of all loss terms.\<close>

definition total_loss :: "loss_dict \<Rightarrow> real" where
  "total_loss loss_dict = sum_list (map (\<lambda>kv. item (snd kv)) loss_dict)"

text \<open>The concrete agent after one call of \<^verbatim>\<open>update_learning_rate\<close>.\<close>

definition logged_agent :: "(nat, nat) agent" where
  "logged_agent = snd (update_learning_rate demo_agent)"

section \<open>Checkpoints\<close>

lemma save_ckpt_cases:
  "save_ckpt s name =
     (if writable s (save_path s name)
      then (Inr (), s\<lparr>net := (net s)\<lparr>residency := Device\<rparr>,
                      files := (files s)(save_path s name \<mapsto> CheckpointFile
                        \<lparr>ck_clock = make_checkpoint (clock s),
                         model_state_dict = \<lparr>sd_weights = weights (net s), sd_device = Host\<rparr>,
                         optimizer_state_dict = optimizer s,
                         scheduler_state_dict = scheduler s\<rparr>),
                      console := console s @ [''Checkpoint saved at '' @ save_path s name]\<rparr>)
      else (Inl OSError, s\<lparr>net := (net s)\<lparr>residency := Host\<rparr>\<rparr>))"
  by (simp add: save_ckpt_def torch_save_def cpu_def cuda_def get_state_dict_def Let_def)

lemma load_ckpt_checkpoint:
  "files t (load_path t n) = Some (CheckpointFile ck) \<Longrightarrow>
   load_ckpt t n = (Inr (), t\<lparr>console := console t @ [''Checkpoint loaded from '' @ load_path t n],
        net := (net t)\<lparr>weights := sd_weights (model_state_dict ck)\<rparr>,
        optimizer := optimizer_state_dict ck,
        scheduler := scheduler_state_dict ck,
        clock := restore_checkpoint (clock t) (ck_clock ck)\<rparr>)"
  by (simp add: load_ckpt_def os_path_exists_def torch_load_def load_state_dict_def Let_def)

lemma restore_make_checkpoint: "restore_checkpoint c (make_checkpoint c0) = c0"
  by (simp add: restore_checkpoint_def make_checkpoint_def)

lemma load_path_model_dir: "model_dir t = model_dir s \<Longrightarrow> load_path t n = load_path s n"
  by (simp add: load_path_def)

text \<open>C1. Round trip: when \<^verbatim>\<open>save_ckpt\<close> completes and \<^verbatim>\<open>load_ckpt\<close> is then
  called with a name that it resolves to the path just written, the load
  completes and the clock, the optimizer state and the scheduler state are those
  of the agent before the save. The load may happen in the state the save left
  or in any later state of the agent, whatever its clock, optimizer and
  scheduler have become, as long as the file is the one the save wrote.\<close>

theorem save_load_roundtrip:
  assumes "save_ckpt s name = (Inr (), s1)"
    and "load_path t name' = save_path s name"
    and "files t (save_path s name) = files s1 (save_path s name)"
  shows "\<exists>t'. load_ckpt t name' = (Inr (), t') \<and> clock t' = clock s \<and>
           optimizer t' = optimizer s \<and> scheduler t' = scheduler s"
proof -
  from assms(1) have "writable s (save_path s name)"
    by (auto simp: save_ckpt_cases split: if_splits)
  with assms(1) have "files s1 (save_path s name) = Some (CheckpointFile
       \<lparr>ck_clock = make_checkpoint (clock s),
        model_state_dict = \<lparr>sd_weights = weights (net s), sd_device = Host\<rparr>,
        optimizer_state_dict = optimizer s, scheduler_state_dict = scheduler s\<rparr>)"
    by (auto simp: save_ckpt_cases)
  with assms(2,3) have "files t (load_path t name') = Some (CheckpointFile
       \<lparr>ck_clock = make_checkpoint (clock s),
        model_state_dict = \<lparr>sd_weights = weights (net s), sd_device = Host\<rparr>,
        optimizer_state_dict = optimizer s, scheduler_state_dict = scheduler s\<rparr>)"
    by simp
  then show ?thesis
    by (simp add: load_ckpt_checkpoint restore_make_checkpoint)
qed

lemma os_path_join_relative:
  "b = [] \<or> hd b \<noteq> CHR ''/'' \<Longrightarrow> os_path_join a b = dir_prefix a @ b"
  by (auto simp: os_path_join_def dir_prefix_def)


lemma load_path_explicit:
  "name \<noteq> PyStr ''latest'' \<Longrightarrow>
   load_path s name = dir_prefix (model_dir s) @ ''ckpt_epoch'' @ format name @ ''.pth''"
  by (simp add: load_path_def load_name_def os_path_join_relative)


lemma digit_char_digit: "d < 10 \<Longrightarrow> digit_char d \<in> set ''0123456789''"
proof -
  assume "d < 10"
  then have "d \<in> {0, 1, 2, 3, 4, 5, 6, 7, 8, 9}" by auto
  then show ?thesis by (auto simp: digit_char_def)
qed

lemma str_nat_digits: "set (str_nat n) \<subseteq> set ''0123456789''"
proof (induction n rule: str_nat.induct)
  case (1 n)
  show ?case
  proof (cases "n < 10")
    case True
    then show ?thesis using digit_char_digit [of n] by (subst str_nat.simps) simp
  next
    case False
    have "n mod 10 < 10" by simp
    then have "digit_char (n mod 10) \<in> set ''0123456789''" by (rule digit_char_digit)
    with False "1" show ?thesis by (subst str_nat.simps) simp
  qed
qed

lemma str_int_no_N: "CHR ''N'' \<notin> set (str_int i)"
  using str_nat_digits [of "nat i"] str_nat_digits [of "nat (- i)"]
  by (auto simp: str_int_def)

lemma str_int_not_None: "str_int i \<noteq> ''None''"
  using str_int_no_N [of i] by auto

lemma load_path_None: "load_path s PyNone = dir_prefix (model_dir s) @ ''ckpt_epochNone.pth''"
  by (simp add: load_path_explicit)

lemma save_path_None:
  "save_path s PyNone = dir_prefix (model_dir s) @ ''ckpt_epoch'' @ str_int (epoch (clock s)) @ ''.pth''"
  by (simp add: save_path_def os_path_join_relative)

lemma load_path_latest: "load_path s (PyStr ''latest'') = dir_prefix (model_dir s) @ ''latest.pth''"
  by (simp add: load_path_def load_name_def os_path_join_relative)

lemma load_ckpt_exists_no_ValueError:
  "os_path_exists s (load_path s name) \<Longrightarrow> fst (load_ckpt s name) \<noteq> Inl (ValueError m)"
  by (auto simp: load_ckpt_def torch_load_def os_path_exists_def split: option.splits disk_file.splits)

text \<open>C3. When the path \<^verbatim>\<open>load_ckpt\<close> resolves does not exist, the call raises
  the value error whose message carries that path, and the whole state of the
  agent (clock, network, optimizer, scheduler and everything else) is as
  before.\<close>

theorem load_ckpt_missing_path:
  "\<not> os_path_exists s (load_path s name) \<Longrightarrow>
   load_ckpt s name = (Inl (ValueError (''Checkpoint '' @ load_path s name @ '' not exists.'')), s)"
  by (simp add: load_ckpt_def)

text \<open>C10. Without an argument \<^verbatim>\<open>load_ckpt\<close> resolves
  \<^verbatim>\<open>ckpt_epochNone.pth\<close> in the model directory, which is neither the path of
  \<^verbatim>\<open>latest\<close> nor the path a save without a name writes for the current epoch;
  the call raises the missing-path value error if no file of that name exists,
  and no such value error if one does.\<close>

theorem load_ckpt_default_name:
  "load_path s PyNone = os_path_join (model_dir s) ''ckpt_epochNone.pth'' \<and>
   load_path s PyNone \<noteq> load_path s (PyStr ''latest'') \<and>
   load_path s PyNone \<noteq> save_path s PyNone \<and>
   (if os_path_exists s (load_path s PyNone)
    then \<forall>m. fst (load_ckpt s PyNone) \<noteq> Inl (ValueError m)
    else load_ckpt s PyNone =
           (Inl (ValueError (''Checkpoint '' @ load_path s PyNone @ '' not exists.'')), s))"
proof -
  have "load_path s PyNone = os_path_join (model_dir s) ''ckpt_epochNone.pth''"
    by (simp add: load_path_def load_name_def)
  moreover have "load_path s PyNone \<noteq> load_path s (PyStr ''latest'')"
    by (simp add: load_path_None load_path_latest)
  moreover have "load_path s PyNone \<noteq> save_path s PyNone"
    using str_int_not_None [of "epoch (clock s)"] by (simp add: load_path_None save_path_None)
  moreover have "os_path_exists s (load_path s PyNone) \<Longrightarrow>
      \<forall>m. fst (load_ckpt s PyNone) \<noteq> Inl (ValueError m)"
    by (simp add: load_ckpt_exists_no_ValueError)
  moreover have "\<not> os_path_exists s (load_path s PyNone) \<Longrightarrow> load_ckpt s PyNone =
           (Inl (ValueError (''Checkpoint '' @ load_path s PyNone @ '' not exists.'')), s)"
    by (simp add: load_ckpt_def)
  ultimately show ?thesis by simp
qed

lemma str_int_5: "str_int 5 = ''5''"
  by (simp add: str_int_def str_nat.simps digit_char_def)












lemma demo_save_path: "save_path demo_agent PyNone = ''ckpts/ckpt_epoch5.pth''"
  by (simp add: save_path_def demo_agent_def os_path_join_def str_int_5)

lemma demo_writable: "writable demo_agent ''ckpts/ckpt_epoch5.pth''"
  by (simp add: demo_agent_def)

lemma stale_agent_eq:
  "stale_agent = demo_agent\<lparr>net := (net demo_agent)\<lparr>residency := Device\<rparr>,
      files := (files demo_agent)(''ckpts/ckpt_epoch5.pth'' \<mapsto> CheckpointFile
         \<lparr>ck_clock = make_checkpoint (clock demo_agent),
          model_state_dict = \<lparr>sd_weights = weights (net demo_agent), sd_device = Host\<rparr>,
          optimizer_state_dict = optimizer demo_agent,
          scheduler_state_dict = scheduler demo_agent\<rparr>),
      console := console demo_agent @ [''Checkpoint saved at ckpts/ckpt_epoch5.pth'']\<rparr>"
  by (simp add: stale_agent_def save_ckpt_cases demo_save_path demo_writable)

lemma stale_paths:
  "save_path stale_agent (PyInt 5) = ''ckpts/5.pth''"
  "load_path stale_agent (PyInt 5) = ''ckpts/ckpt_epoch5.pth''"
  by (simp_all add: stale_agent_eq save_path_def load_path_def load_name_def
      demo_agent_def os_path_join_def str_int_5)


text \<open>C7, as amended. A completed \<^verbatim>\<open>save_ckpt\<close> has written, at the path derived
  from the name or from the current epoch, the record of the clock, the
  parameters as they are in host memory, the optimizer state and the scheduler
  state; afterwards the network is the network of before with its parameters
  in device memory, so the residency is that of before whenever the parameters
  were in device memory before.\<close>

theorem save_ckpt_completed:
  "save_ckpt s name = (Inr (), s1) \<Longrightarrow>
     save_path s name = os_path_join (model_dir s)
        ((if name = PyNone then ''ckpt_epoch'' @ str_int (epoch (clock s)) else format name) @ ''.pth'') \<and>
     files s1 (save_path s name) = Some (CheckpointFile
        \<lparr>ck_clock = make_checkpoint (clock s),
         model_state_dict = \<lparr>sd_weights = weights (net s), sd_device = Host\<rparr>,
         optimizer_state_dict = optimizer s,
         scheduler_state_dict = scheduler s\<rparr>) \<and>
     net s1 = (net s)\<lparr>residency := Device\<rparr> \<and>
     (residency (net s) = Device \<longrightarrow> residency (net s1) = residency (net s))"
proof -
  assume h: "save_ckpt s name = (Inr (), s1)"
  have w: "writable s (save_path s name)"
  proof (rule ccontr)
    assume "\<not> writable s (save_path s name)"
    then have "fst (save_ckpt s name) = Inl OSError" by (simp add: save_ckpt_cases)
    with h show False by simp
  qed
  from h w have e: "s1 = s\<lparr>net := (net s)\<lparr>residency := Device\<rparr>,
                      files := (files s)(save_path s name \<mapsto> CheckpointFile
                        \<lparr>ck_clock = make_checkpoint (clock s),
                         model_state_dict = \<lparr>sd_weights = weights (net s), sd_device = Host\<rparr>,
                         optimizer_state_dict = optimizer s,
                         scheduler_state_dict = scheduler s\<rparr>),
                      console := console s @ [''Checkpoint saved at '' @ save_path s name]\<rparr>"
    by (simp add: save_ckpt_cases)
  have 1: "save_path s name = os_path_join (model_dir s)
        ((if name = PyNone then ''ckpt_epoch'' @ str_int (epoch (clock s)) else format name) @ ''.pth'')"
    by (simp add: save_path_def)
  have 2: "files s1 (save_path s name) = Some (CheckpointFile
        \<lparr>ck_clock = make_checkpoint (clock s),
         model_state_dict = \<lparr>sd_weights = weights (net s), sd_device = Host\<rparr>,
         optimizer_state_dict = optimizer s,
         scheduler_state_dict = scheduler s\<rparr>)"
    by (simp add: e)
  have 3: "net s1 = (net s)\<lparr>residency := Device\<rparr>" by (simp add: e)
  have 4: "residency (net s) = Device \<longrightarrow> residency (net s1) = residency (net s)"
    by (simp add: 3)
  from 1 2 3 4 show ?thesis by (intro conjI)
qed

lemma host_agent_eq: "host_agent = demo_agent\<lparr>net := (net demo_agent)\<lparr>residency := Host\<rparr>\<rparr>"
proof -
  have "save_path demo_agent (PyStr ''runs/best'') = ''ckpts/runs/best.pth''"
    by (simp add: save_path_def demo_agent_def os_path_join_def)
  moreover have "\<not> writable demo_agent ''ckpts/runs/best.pth''"
    by (simp add: demo_agent_def)
  ultimately show ?thesis by (simp add: host_agent_def save_ckpt_cases)
qed

text \<open>C7 as stated fails: a save that raises leaves the parameters in host
  memory; the completed save that follows moves them to device memory, so the
  residency after it differs from the residency before it.\<close>

theorem save_ckpt_residency_counterexample:
  "fst (save_ckpt demo_agent (PyStr ''runs/best'')) = Inl OSError \<and>
   host_agent = snd (save_ckpt demo_agent (PyStr ''runs/best'')) \<and>
   fst (save_ckpt host_agent PyNone) = Inr () \<and>
   residency (net host_agent) = Host \<and>
   residency (net (snd (save_ckpt host_agent PyNone))) \<noteq> residency (net host_agent)"
proof -
  have p: "save_path demo_agent (PyStr ''runs/best'') = ''ckpts/runs/best.pth''"
    by (simp add: save_path_def demo_agent_def os_path_join_def)
  have nw: "\<not> writable demo_agent ''ckpts/runs/best.pth''"
    by (simp add: demo_agent_def)
  have 1: "fst (save_ckpt demo_agent (PyStr ''runs/best'')) = Inl OSError"
    using p nw by (simp add: save_ckpt_cases)
  have q: "save_path host_agent PyNone = ''ckpts/ckpt_epoch5.pth''"
    using demo_save_path by (simp add: host_agent_eq save_path_def)
  have w: "writable host_agent ''ckpts/ckpt_epoch5.pth''"
    using demo_writable by (simp add: host_agent_eq)
  have 2: "fst (save_ckpt host_agent PyNone) = Inr ()"
    using q w by (simp add: save_ckpt_cases)
  have 3: "residency (net host_agent) = Host" by (simp add: host_agent_eq)
  have 4: "residency (net (snd (save_ckpt host_agent PyNone))) = Device"
    using q w by (simp add: save_ckpt_cases)
  from 1 2 3 4 show ?thesis by (simp add: host_agent_def)
qed

theorem save_load_roundtrip_witness:
  "save_ckpt demo_agent PyNone = (Inr (), stale_agent) \<and>
   load_path later_agent (PyInt 5) = save_path demo_agent PyNone \<and>
   files later_agent (save_path demo_agent PyNone) = files stale_agent (save_path demo_agent PyNone) \<and>
   clock later_agent \<noteq> clock demo_agent \<and>
   optimizer later_agent \<noteq> optimizer demo_agent \<and>
   scheduler later_agent \<noteq> scheduler demo_agent \<and>
   (\<exists>t'. load_ckpt later_agent (PyInt 5) = (Inr (), t') \<and> clock t' = clock demo_agent \<and>
      optimizer t' = optimizer demo_agent \<and> scheduler t' = scheduler demo_agent)"
proof -
  have h: "save_ckpt demo_agent PyNone = (Inr (), stale_agent)"
    by (simp add: stale_agent_def save_ckpt_cases demo_save_path demo_writable)
  have m: "model_dir later_agent = model_dir stale_agent" by (simp add: later_agent_def)
  have p: "load_path later_agent (PyInt 5) = save_path demo_agent PyNone"
    by (simp add: load_path_model_dir [OF m] stale_paths demo_save_path)
  have f: "files later_agent (save_path demo_agent PyNone)
      = files stale_agent (save_path demo_agent PyNone)"
    by (simp add: later_agent_def)
  have c: "clock later_agent \<noteq> clock demo_agent"
    by (simp add: later_agent_def demo_agent_def)
  have ob: "optimizer later_agent \<noteq> optimizer demo_agent"
    by (simp add: later_agent_def demo_agent_def)
  have sc: "scheduler later_agent \<noteq> scheduler demo_agent"
    by (simp add: later_agent_def demo_agent_def)
  from save_load_roundtrip [OF h p f] h p f c ob sc show ?thesis by (intro conjI)
qed

theorem load_ckpt_missing_path_witness:
  "\<not> os_path_exists demo_agent (load_path demo_agent (PyStr ''best'')) \<and>
   load_ckpt demo_agent (PyStr ''best'') =
     (Inl (ValueError ''Checkpoint ckpts/ckpt_epochbest.pth not exists.''), demo_agent)"
proof -
  have e: "\<not> os_path_exists demo_agent (load_path demo_agent (PyStr ''best''))"
    by (simp add: os_path_exists_def demo_agent_def)
  have p: "load_path demo_agent (PyStr ''best'') = ''ckpts/ckpt_epochbest.pth''"
    by (simp add: load_path_def load_name_def demo_agent_def os_path_join_def)
  from load_ckpt_missing_path [OF e] e show ?thesis by (simp add: p)
qed

theorem load_ckpt_default_name_witness:
  "load_path demo_agent PyNone = ''ckpts/ckpt_epochNone.pth'' \<and>
   load_ckpt demo_agent PyNone =
     (Inl (ValueError ''Checkpoint ckpts/ckpt_epochNone.pth not exists.''), demo_agent) \<and>
   (\<forall>m. fst (load_ckpt (demo_agent\<lparr>files := [''ckpts/ckpt_epochNone.pth'' \<mapsto> OtherFile]\<rparr>) PyNone)
      \<noteq> Inl (ValueError m))"
proof -
  have p: "os_path_join ''ckpts'' ''ckpt_epochNone.pth'' = ''ckpts/ckpt_epochNone.pth''"
    by (simp add: os_path_join_def)
  have m: "model_dir demo_agent = ''ckpts''" "files demo_agent = Map.empty"
    by (simp_all add: demo_agent_def)
  have 1: "load_path demo_agent PyNone = ''ckpts/ckpt_epochNone.pth'' \<and>
   load_ckpt demo_agent PyNone =
     (Inl (ValueError ''Checkpoint ckpts/ckpt_epochNone.pth not exists.''), demo_agent)"
    using load_ckpt_default_name [of demo_agent] by (simp add: m p os_path_exists_def)
  have 2: "\<forall>m. fst (load_ckpt (demo_agent\<lparr>files := [''ckpts/ckpt_epochNone.pth'' \<mapsto> OtherFile]\<rparr>) PyNone)
      \<noteq> Inl (ValueError m)"
    using load_ckpt_default_name [of "demo_agent\<lparr>files := [''ckpts/ckpt_epochNone.pth'' \<mapsto> OtherFile]\<rparr>"]
    by (simp add: m p os_path_exists_def)
  from 1 2 show ?thesis by simp
qed


theorem save_ckpt_completed_witness:
  "save_ckpt demo_agent PyNone = (Inr (), stale_agent) \<and>
   residency (net demo_agent) = Device \<and>
   files stale_agent (save_path demo_agent PyNone) = Some (CheckpointFile
        \<lparr>ck_clock = make_checkpoint (clock demo_agent),
         model_state_dict = \<lparr>sd_weights = weights (net demo_agent), sd_device = Host\<rparr>,
         optimizer_state_dict = optimizer demo_agent,
         scheduler_state_dict = scheduler demo_agent\<rparr>) \<and>
   residency (net stale_agent) = residency (net demo_agent)"
proof -
  have h: "save_ckpt demo_agent PyNone = (Inr (), stale_agent)"
    by (simp add: stale_agent_def save_ckpt_cases demo_save_path demo_writable)
  have d: "residency (net demo_agent) = Device" by (simp add: demo_agent_def)
  note r = save_ckpt_completed [OF h]
  from r have f: "files stale_agent (save_path demo_agent PyNone) = Some (CheckpointFile
        \<lparr>ck_clock = make_checkpoint (clock demo_agent),
         model_state_dict = \<lparr>sd_weights = weights (net demo_agent), sd_device = Host\<rparr>,
         optimizer_state_dict = optimizer demo_agent,
         scheduler_state_dict = scheduler demo_agent\<rparr>)"
    by (elim conjE)
  from r d have e: "residency (net stale_agent) = residency (net demo_agent)"
    by (elim conjE) (rule mp)
  from h d f e show ?thesis by (intro conjI)
qed

section \<open>Training steps\<close>

lemma write_scalars_append:
  "write_scalars tb kvs gs = tb @ map (\<lambda>(k, v). (k, v, gs)) kvs"
  unfolding write_scalars_def
  by (induction kvs arbitrary: tb) (auto simp: add_scalar_def)

lemma losses_values_foldl: "losses_values d = foldl insert_loss [] d"
proof -
  have "(\<lambda>acc (k, v). AList.update k (item v) acc) = insert_loss"
    by (intro ext) (simp add: insert_loss_def split: prod.splits)
  then show ?thesis by (simp only: losses_values_def)
qed

lemma foldl_insert_distinct:
  "distinct (map fst acc) \<Longrightarrow> distinct (map fst (foldl insert_loss acc d))"
  by (induction d arbitrary: acc) (simp_all add: insert_loss_def distinct_update)

lemma foldl_insert_keys:
  "fst ` set (foldl insert_loss acc d) = fst ` set acc \<union> fst ` set d"
  by (induction d arbitrary: acc) (auto simp: insert_loss_def dom_update)

lemma update_fresh: "k \<notin> fst ` set al \<Longrightarrow> AList.update k v al = al @ [(k, v)]"
  by (induction al) auto

lemma foldl_insert_fresh:
  "distinct (map fst d) \<Longrightarrow> fst ` set acc \<inter> fst ` set d = {} \<Longrightarrow>
   foldl insert_loss acc d = acc @ map (\<lambda>(k, v). (k, item v)) d"
proof (induction d arbitrary: acc)
  case Nil
  then show ?case by simp
next
  case (Cons kv d)
  obtain k v where kv: "kv = (k, v)" by (cases kv)
  from Cons.prems kv have fresh: "k \<notin> fst ` set acc" by auto
  then have step: "insert_loss acc kv = acc @ [(k, item v)]"
    by (simp add: insert_loss_def kv update_fresh)
  from Cons.prems kv have "distinct (map fst d)"
    and "fst ` set (acc @ [(k, item v)]) \<inter> fst ` set d = {}"
    by auto
  then have "foldl insert_loss (acc @ [(k, item v)]) d
      = (acc @ [(k, item v)]) @ map (\<lambda>(k, v). (k, item v)) d"
    by (rule Cons.IH)
  then show ?case using step by (simp add: kv)
qed

lemma losses_values_distinct: "distinct (map fst (losses_values d))"
  by (simp add: losses_values_foldl foldl_insert_distinct)

lemma losses_values_keys: "fst ` set (losses_values d) = fst ` set d"
  by (simp add: losses_values_foldl foldl_insert_keys)

lemma losses_values_dict:
  "distinct (map fst d) \<Longrightarrow> losses_values d = map (\<lambda>(k, v). (k, item v)) d"
  by (simp add: losses_values_foldl foldl_insert_fresh)

lemma distinct_count_one:
  "distinct (map f xs) \<Longrightarrow> x \<in> set xs \<Longrightarrow> length (filter (\<lambda>y. f y = f x) xs) = 1"
proof (induction xs)
  case Nil
  then show ?case by simp
next
  case (Cons a xs)
  show ?case
  proof (cases "a = x")
    case True
    with Cons.prems have "f x \<notin> f ` set xs" by simp
    then have "\<forall>y\<in>set xs. f y \<noteq> f x" by (metis imageI)
    then have "filter (\<lambda>y. f y = f x) xs = []" by (simp add: filter_empty_conv)
    with True show ?thesis by simp
  next
    case False
    with Cons.prems have "x \<in> set xs" and "f a \<noteq> f x" by auto
    with Cons show ?thesis by simp
  qed
qed

lemma record_losses_train:
  "record_losses s d ''train'' = s\<lparr>train_tb := train_tb s @ written_scalars s d\<rparr>"
  by (simp add: record_losses_def write_scalars_append written_scalars_def)

lemma record_losses_other:
  "mode \<noteq> ''train'' \<Longrightarrow> record_losses s d mode = s\<lparr>val_tb := val_tb s @ written_scalars s d\<rparr>"
  by (simp add: record_losses_def write_scalars_append written_scalars_def)

lemma written_scalars_count:
  assumes "k \<in> fst ` set d"
  shows "length (filter (\<lambda>e. fst e = k) (written_scalars s d)) = 1"
proof -
  from assms have "k \<in> fst ` set (losses_values d)" by (simp add: losses_values_keys)
  then obtain x where x: "x \<in> set (losses_values d)" "fst x = k" by auto
  have "filter (\<lambda>e. fst e = k) (written_scalars s d)
      = map (\<lambda>(k, v). (k, v, step (clock s))) (filter (\<lambda>kv. fst kv = k) (losses_values d))"
    by (simp add: written_scalars_def filter_map o_def case_prod_beta)
  then have "length (filter (\<lambda>e. fst e = k) (written_scalars s d))
      = length (filter (\<lambda>kv. fst kv = fst x) (losses_values d))"
    using x(2) by simp
  also have "\<dots> = 1"
    using losses_values_distinct x(1) by (rule distinct_count_one)
  finally show ?thesis .
qed

text \<open>C8. \<^verbatim>\<open>record_losses\<close> appends its entries to the train writer when
  the mode is \<^verbatim>\<open>train\<close> and to the validation writer otherwise (so for
  \<^verbatim>\<open>validation\<close>), and leaves the other writer alone. Every entry carries the
  current step counter, the tags written are the keys of the dictionary, and
  each key has exactly one entry; for a dictionary (distinct keys) the entries
  are its items in order, each with the scalar of its loss term.\<close>

theorem record_losses_entries:
  "(if mode = ''train''
    then train_tb (record_losses s d mode) = train_tb s @ written_scalars s d \<and>
         val_tb (record_losses s d mode) = val_tb s
    else val_tb (record_losses s d mode) = val_tb s @ written_scalars s d \<and>
         train_tb (record_losses s d mode) = train_tb s) \<and>
   map (snd \<circ> snd) (written_scalars s d) = replicate (length (written_scalars s d)) (step (clock s)) \<and>
   fst ` set (written_scalars s d) = fst ` set d \<and>
   (\<forall>k \<in> fst ` set d. length (filter (\<lambda>e. fst e = k) (written_scalars s d)) = 1) \<and>
   (distinct (map fst d) \<longrightarrow>
      written_scalars s d = map (\<lambda>(k, v). (k, item v, step (clock s))) d)"
proof (intro conjI ballI impI)
  show "if mode = ''train''
    then train_tb (record_losses s d mode) = train_tb s @ written_scalars s d \<and>
         val_tb (record_losses s d mode) = val_tb s
    else val_tb (record_losses s d mode) = val_tb s @ written_scalars s d \<and>
         train_tb (record_losses s d mode) = train_tb s"
    by (simp add: record_losses_train record_losses_other)
  show "map (snd \<circ> snd) (written_scalars s d)
      = replicate (length (written_scalars s d)) (step (clock s))"
    by (simp add: written_scalars_def map_replicate_const [symmetric] case_prod_beta o_def)
  show "fst ` set (written_scalars s d) = fst ` set d"
    by (simp add: written_scalars_def losses_values_keys [symmetric] image_image case_prod_beta)
  show "length (filter (\<lambda>e. fst e = k) (written_scalars s d)) = 1" if "k \<in> fst ` set d" for k
    using that by (rule written_scalars_count)
  show "written_scalars s d = map (\<lambda>(k, v). (k, item v, step (clock s))) d"
    if "distinct (map fst d)"
    using that by (simp add: written_scalars_def losses_values_dict case_prod_beta o_def)
qed

lemma demo_written_scalars:
  "written_scalars demo_agent two_losses = [(''a'', 1, 120), (''b'', 2, 120)]"
  by (simp add: written_scalars_def losses_values_def two_losses_def demo_agent_def)

theorem record_losses_entries_witness:
  "''a'' \<in> fst ` set two_losses \<and> distinct (map fst two_losses) \<and>
   val_tb (record_losses demo_agent two_losses ''validation'') = [(''a'', 1, 120), (''b'', 2, 120)] \<and>
   train_tb (record_losses demo_agent two_losses ''validation'') = [] \<and>
   train_tb (record_losses demo_agent two_losses ''train'') = [(''a'', 1, 120), (''b'', 2, 120)] \<and>
   val_tb (record_losses demo_agent two_losses ''train'') = [] \<and>
   length (filter (\<lambda>e. fst e = ''a'') (written_scalars demo_agent two_losses)) = 1"
proof -
  have k: "''a'' \<in> fst ` set two_losses" by (simp add: two_losses_def)
  have dist: "distinct (map fst two_losses)" by (simp add: two_losses_def)
  have tb: "train_tb demo_agent = []" "val_tb demo_agent = []" by (simp_all add: demo_agent_def)
  note v = record_losses_entries [of "''validation''" demo_agent two_losses]
  note t = record_losses_entries [of "''train''" demo_agent two_losses]
  from v have v1: "val_tb (record_losses demo_agent two_losses ''validation'')
        = [(''a'', 1, 120), (''b'', 2, 120)]"
    and v2: "train_tb (record_losses demo_agent two_losses ''validation'') = []"
    by (simp_all add: demo_written_scalars tb)
  from t have t1: "train_tb (record_losses demo_agent two_losses ''train'')
        = [(''a'', 1, 120), (''b'', 2, 120)]"
    and t2: "val_tb (record_losses demo_agent two_losses ''train'') = []"
    by (simp_all add: demo_written_scalars tb)
  from t k have c: "length (filter (\<lambda>e. fst e = ''a'') (written_scalars demo_agent two_losses)) = 1"
    by blast
  from k dist v1 v2 t1 t2 c show ?thesis by (intro conjI)
qed

lemma foldl_py_add:
  "foldl py_add (TensorVal (Tensor a g)) ts
     = TensorVal (Tensor (a + sum_list (map item ts)) (g \<or> list_ex requires_grad ts))"
proof (induction ts arbitrary: a g)
  case Nil
  then show ?case by simp
next
  case (Cons t ts)
  obtain x h where t: "t = Tensor x h" by (cases t)
  show ?case by (simp add: t Cons.IH add.assoc disj_assoc)
qed

lemma py_sum_nonempty:
  "ts \<noteq> [] \<Longrightarrow>
   py_sum ts = TensorVal (Tensor (sum_list (map item ts)) (list_ex requires_grad ts))"
proof (cases ts)
  case Nil
  assume "ts \<noteq> []"
  with Nil show ?thesis by simp
next
  case (Cons t ts')
  obtain x h where t: "t = Tensor x h" by (cases t)
  show ?thesis by (simp add: py_sum_def Cons t foldl_py_add)
qed

lemma py_sum_loss_dict:
  "loss_dict \<noteq> [] \<Longrightarrow>
   py_sum (map snd loss_dict)
     = TensorVal (Tensor (total_loss loss_dict) (total_requires_grad loss_dict))"
  by (simp add: py_sum_nonempty total_loss_def total_requires_grad_def o_def list_ex_iff)

lemma update_network_nonempty:
  "loss_dict \<noteq> [] \<Longrightarrow> total_requires_grad loss_dict \<Longrightarrow>
   update_network s loss_dict =
     (Inr (), s\<lparr>net := (net s)\<lparr>grad := [Tensor (total_loss loss_dict) True],
                              weights := AfterStep (weights (net s))
                                           [Tensor (total_loss loss_dict) True]\<rparr>,
                optimizer := (optimizer s)\<lparr>steps := steps (optimizer s) + 1\<rparr>\<rparr>)"
  by (simp add: update_network_def py_sum_loss_dict zero_grad_def backward_def
      optimizer_step_def)

lemma update_network_detached:
  "loss_dict \<noteq> [] \<Longrightarrow> \<not> total_requires_grad loss_dict \<Longrightarrow>
   update_network s loss_dict = (Inl RuntimeError, zero_grad s)"
  by (simp add: update_network_def py_sum_loss_dict backward_def zero_grad_def)

lemma update_network_empty: "update_network s [] = (Inl AttributeError, zero_grad s)"
  by (simp add: update_network_def py_sum_def)

text \<open>C5, as amended. For every loss dictionary that is not empty and whose
  total requires gradients, \<^verbatim>\<open>update_network\<close> completes; the gradients are
  those of the one backpropagated total, the sum of all loss terms, and the
  parameters are those after exactly one optimizer step with these
  gradients.\<close>

theorem update_network_step:
  "loss_dict \<noteq> [] \<Longrightarrow> total_requires_grad loss_dict \<Longrightarrow>
   update_network s loss_dict =
     (Inr (), s\<lparr>net := (net s)\<lparr>grad := [Tensor (total_loss loss_dict) True],
                              weights := AfterStep (weights (net s))
                                           [Tensor (total_loss loss_dict) True]\<rparr>,
                optimizer := (optimizer s)\<lparr>steps := steps (optimizer s) + 1\<rparr>\<rparr>)"
  by (rule update_network_nonempty)

theorem update_network_step_witness:
  "two_losses \<noteq> [] \<and> total_requires_grad two_losses \<and> total_loss two_losses = 3 \<and>
   fst (update_network demo_agent two_losses) = Inr () \<and>
   weights (net (snd (update_network demo_agent two_losses)))
     = AfterStep (InitialWeights 0) [Tensor 3 True] \<and>
   steps (optimizer (snd (update_network demo_agent two_losses))) = 1"
proof -
  have n: "two_losses \<noteq> []" by (simp add: two_losses_def)
  have g: "total_requires_grad two_losses"
    by (simp add: total_requires_grad_def two_losses_def)
  have t: "total_loss two_losses = 3" by (simp add: total_loss_def two_losses_def)
  have d: "weights (net demo_agent) = InitialWeights 0" "steps (optimizer demo_agent) = 0"
    by (simp_all add: demo_agent_def)
  from update_network_step [OF n g, of demo_agent] n g t d show ?thesis by simp
qed

text \<open>C5 as stated fails on the empty dictionary: the sum is the integer 0,
  which cannot be backpropagated. It also fails on a dictionary of loss terms
  computed without gradients, as \<^verbatim>\<open>val_func\<close> returns them: the total
  cannot be backpropagated either. In both cases the call raises after the
  gradients were cleared and no optimizer step is taken.\<close>

theorem update_network_empty_counterexample:
  "fst (update_network demo_agent []) = Inl AttributeError \<and>
   steps (optimizer (snd (update_network demo_agent []))) = steps (optimizer demo_agent) \<and>
   weights (net (snd (update_network demo_agent []))) = weights (net demo_agent) \<and>
   detached_losses \<noteq> [] \<and>
   fst (update_network demo_agent detached_losses) = Inl RuntimeError \<and>
   steps (optimizer (snd (update_network demo_agent detached_losses)))
     = steps (optimizer demo_agent) \<and>
   weights (net (snd (update_network demo_agent detached_losses))) = weights (net demo_agent)"
proof -
  have n: "detached_losses \<noteq> []" by (simp add: detached_losses_def)
  have g: "\<not> total_requires_grad detached_losses"
    by (simp add: total_requires_grad_def detached_losses_def)
  show ?thesis
    by (simp add: update_network_empty update_network_detached [OF n g] zero_grad_def n)
qed

lemma record_losses_net: "net (record_losses s d mode) = net s"
  by (simp add: record_losses_def Let_def)

lemma record_losses_optimizer: "optimizer (record_losses s d mode) = optimizer s"
  by (simp add: record_losses_def Let_def)

lemma update_network_training: "training (net (snd (update_network s d))) = training (net s)"
  by (simp add: update_network_def zero_grad_def backward_def optimizer_step_def Let_def
      split: pynum.splits)

lemma train_func_training: "training (net (snd (train_func s data)))"
proof (cases "forward (s\<lparr>net := net_train (net s)\<rparr>) True data")
  case (Inl e)
  then show ?thesis by (simp add: train_func_def net_train_def Let_def)
next
  case (Inr r)
  show ?thesis
  proof (cases r)
    case RetNone
    with Inr show ?thesis by (simp add: train_func_def net_train_def Let_def)
  next
    case (RetPair outputs losses)
    let ?s1 = "s\<lparr>net := net_train (net s)\<rparr>"
    have t: "training (net (snd (update_network ?s1 losses)))"
      by (simp add: update_network_training net_train_def)
    obtain r2 s2 where u: "update_network ?s1 losses = (r2, s2)"
      by (cases "update_network ?s1 losses")
    with t have t2: "training (net s2)" by simp
    show ?thesis
    proof (cases r2)
      case (Inl e)
      with Inr RetPair u t2 show ?thesis by (simp add: train_func_def Let_def)
    next
      case (Inr x)
      with \<open>forward ?s1 True data = Inr r\<close> RetPair u t2 show ?thesis
        by (simp add: train_func_def record_losses_net Let_def)
    qed
  qed
qed

lemma val_func_state:
  "snd (val_func s data) = s\<lparr>net := net_eval (net s)\<rparr> \<or>
   (\<exists>d. snd (val_func s data) = record_losses (s\<lparr>net := net_eval (net s)\<rparr>) d ''validation'')"
  by (auto simp: val_func_def Let_def split: sum.splits fwd_ret.splits)

lemma val_func_net: "net (snd (val_func s data)) = net_eval (net s)"
  using val_func_state [of s data] by (auto simp: record_losses_net)

lemma val_func_optimizer: "optimizer (snd (val_func s data)) = optimizer s"
  using val_func_state [of s data] by (auto simp: record_losses_optimizer)

text \<open>C6. After \<^verbatim>\<open>train_func\<close> the network is in training mode; after
  \<^verbatim>\<open>val_func\<close> it is in evaluation mode, and parameters, gradients and
  optimizer are those of before. Both hold whether the call returns or
  raises.\<close>

theorem train_val_modes:
  "training (net (snd (train_func s data))) \<and>
   \<not> training (net (snd (val_func s data))) \<and>
   weights (net (snd (val_func s data))) = weights (net s) \<and>
   grad (net (snd (val_func s data))) = grad (net s) \<and>
   optimizer (snd (val_func s data)) = optimizer s"
  by (simp add: train_func_training val_func_net val_func_optimizer net_eval_def)

theorem train_val_modes_witness:
  "fst (train_func demo_agent 7) = Inr (7, two_losses) \<and>
   training (net (snd (train_func demo_agent 7))) \<and>
   fst (val_func demo_agent 7) = Inr (7, detached_losses) \<and>
   \<not> training (net (snd (val_func demo_agent 7))) \<and>
   weights (net (snd (val_func demo_agent 7))) = InitialWeights 0 \<and>
   steps (optimizer (snd (val_func demo_agent 7))) = 0"
proof -
  have f: "forward (demo_agent\<lparr>net := n\<rparr>) True 7 = Inr (RetPair 7 two_losses)" for n
    by (simp add: forward_def demo_agent_def demo_class_def two_losses_def)
  have f': "forward (demo_agent\<lparr>net := n\<rparr>) False 7 = Inr (RetPair 7 detached_losses)" for n
    by (simp add: forward_def demo_agent_def demo_class_def detached_losses_def)
  have n: "two_losses \<noteq> []" by (simp add: two_losses_def)
  have g: "total_requires_grad two_losses"
    by (simp add: total_requires_grad_def two_losses_def)
  have 1: "fst (train_func demo_agent 7) = Inr (7, two_losses)"
    by (simp add: train_func_def f update_network_nonempty [OF n g] Let_def)
  have 2: "fst (val_func demo_agent 7) = Inr (7, detached_losses)"
    by (simp add: val_func_def f' Let_def)
  have d: "weights (net demo_agent) = InitialWeights 0" "steps (optimizer demo_agent) = 0"
    by (simp_all add: demo_agent_def)
  from train_val_modes [of demo_agent 7] 1 2 d show ?thesis by simp
qed

lemma scheduler_step_last_epoch: "last_epoch (scheduler (snd (scheduler_step s e))) = e"
  by (simp add: scheduler_step_def Let_def split: sum.splits)

lemma scheduler_step_train_tb: "train_tb (snd (scheduler_step s e)) = train_tb s"
  by (simp add: scheduler_step_def Let_def split: sum.splits)

lemma closed_form_lr_ok:
  "(\<exists>v. closed_form_lr sch = Inr v) \<longleftrightarrow>
   step_size sch \<noteq> 0 \<and> (0 \<le> last_epoch sch div step_size sch \<or> gamma sch \<noteq> 0)"
  by (auto simp: closed_form_lr_def py_pow_def split: sum.splits)

lemma scheduler_step_completes:
  "fst (scheduler_step s e) = Inr () \<longleftrightarrow>
   step_size (scheduler s) \<noteq> 0 \<and> (0 \<le> e div step_size (scheduler s) \<or> gamma (scheduler s) \<noteq> 0)"
proof -
  have "fst (scheduler_step s e) = Inr () \<longleftrightarrow>
      (\<exists>v. closed_form_lr ((scheduler s)\<lparr>last_epoch := e\<rparr>) = Inr v)"
    by (auto simp: scheduler_step_def Let_def split: sum.splits)
  then show ?thesis by (simp add: closed_form_lr_ok)
qed

text \<open>C4, as amended. \<^verbatim>\<open>update_learning_rate\<close> logs the optimizer's current
  learning rate to the train writer at the clock's epoch and sets the
  scheduler's epoch to the clock's epoch; this is an advance by one exactly
  when the clock's epoch is one more than the scheduler's epoch before the
  call. The call completes exactly when the scheduler can compute the new
  learning rate.\<close>

theorem update_learning_rate_effect:
  "train_tb (snd (update_learning_rate s))
     = train_tb s @ [(''learning_rate'', lr (optimizer s), epoch (clock s))] \<and>
   last_epoch (scheduler (snd (update_learning_rate s))) = epoch (clock s) \<and>
   (last_epoch (scheduler (snd (update_learning_rate s))) = last_epoch (scheduler s) + 1
      \<longleftrightarrow> epoch (clock s) = last_epoch (scheduler s) + 1) \<and>
   (fst (update_learning_rate s) = Inr () \<longleftrightarrow>
      step_size (scheduler s) \<noteq> 0 \<and>
      (0 \<le> epoch (clock s) div step_size (scheduler s) \<or> gamma (scheduler s) \<noteq> 0))"
  by (simp add: update_learning_rate_def Let_def scheduler_step_last_epoch
      scheduler_step_train_tb scheduler_step_completes add_scalar_def)

theorem update_learning_rate_effect_witness:
  "fst (update_learning_rate demo_agent) = Inr () \<and>
   train_tb logged_agent = [(''learning_rate'', 1 / 1000, 5)] \<and>
   last_epoch (scheduler logged_agent) = 5"
proof -
  have d: "train_tb demo_agent = []" "lr (optimizer demo_agent) = 1 / 1000"
    "epoch (clock demo_agent) = 5" "step_size (scheduler demo_agent) = 10"
    by (simp_all add: demo_agent_def)
  from update_learning_rate_effect [of demo_agent] show ?thesis
    by (simp add: logged_agent_def d)
qed

text \<open>C4 as stated fails: with the clock in epoch 5 the first call moves the
  scheduler from epoch 0 to epoch 5, and a second call in the same epoch
  leaves the scheduler's epoch where it is.\<close>

theorem update_learning_rate_counterexample:
  "fst (update_learning_rate demo_agent) = Inr () \<and>
   last_epoch (scheduler demo_agent) = 0 \<and>
   last_epoch (scheduler logged_agent) = 5 \<and>
   fst (update_learning_rate logged_agent) = Inr () \<and>
   last_epoch (scheduler (snd (update_learning_rate logged_agent)))
     = last_epoch (scheduler logged_agent)"
proof -
  have d: "epoch (clock demo_agent) = 5" "step_size (scheduler demo_agent) = 10"
    "last_epoch (scheduler demo_agent) = 0"
    by (simp_all add: demo_agent_def)
  have 1: "fst (update_learning_rate demo_agent) = Inr ()"
    by (simp add: update_learning_rate_def Let_def scheduler_step_completes d)
  have 2: "last_epoch (scheduler logged_agent) = 5"
    by (simp add: logged_agent_def update_learning_rate_def Let_def scheduler_step_last_epoch d)
  have c: "clock (snd (scheduler_step t e)) = clock t" for t :: "(nat, nat) agent" and e
    by (simp add: scheduler_step_def Let_def split: sum.splits)
  have ss: "step_size (scheduler (snd (scheduler_step t e))) = step_size (scheduler t)"
    for t :: "(nat, nat) agent" and e
    by (simp add: scheduler_step_def Let_def split: sum.splits)
  have 3: "epoch (clock logged_agent) = 5"
    by (simp add: logged_agent_def update_learning_rate_def Let_def c d)
  have 4: "step_size (scheduler logged_agent) = 10"
    by (simp add: logged_agent_def update_learning_rate_def Let_def ss d)
  have 5: "fst (update_learning_rate logged_agent) = Inr ()"
    by (simp add: update_learning_rate_def Let_def scheduler_step_completes 3 4)
  have 6: "last_epoch (scheduler (snd (update_learning_rate logged_agent))) = 5"
    by (simp add: update_learning_rate_def Let_def scheduler_step_last_epoch 3)
  from 1 2 5 6 d(3) show ?thesis by simp
qed

text \<open>C2. \<^verbatim>\<open>build_net\<close> and \<^verbatim>\<open>visualize_batch\<close> raise the not-implemented
  error where they are not overridden. \<^verbatim>\<open>forward\<close> does not: in the base class
  and in \<^verbatim>\<open>MyAgent\<close> it returns \<^verbatim>\<open>None\<close>, and \<^verbatim>\<open>train_func\<close> and
  \<^verbatim>\<open>val_func\<close> then raise a type error when they unpack the result.\<close>

theorem unimplemented_methods:
  "build_net BaseAgent cfg = Inl NotImplementedError \<and>
   visualize_batch (s\<lparr>cls := BaseAgent\<rparr>) data tb = Inl NotImplementedError \<and>
   visualize_batch (s\<lparr>cls := MyAgent get_network\<rparr>) data tb = Inl NotImplementedError \<and>
   forward (s\<lparr>cls := BaseAgent\<rparr>) g data = Inr RetNone \<and>
   forward (s\<lparr>cls := MyAgent get_network\<rparr>) g data = Inr RetNone \<and>
   fst (train_func (s\<lparr>cls := MyAgent get_network\<rparr>) data) = Inl TypeError \<and>
   fst (val_func (s\<lparr>cls := MyAgent get_network\<rparr>) data) = Inl TypeError"
  by (simp add: build_net_def visualize_batch_def forward_def BaseAgent_def MyAgent_def
      train_func_def val_func_def Let_def)

end
